theory Spec2Isabelle
  imports Complex_Main "HOL-Library.Word" "HOL-Library.Multiset"
begin

section \<open>The on-chain executor (contracts/FlashloanExecutor.sol)\<close>

text \<open>
  Solidity value types are machine words: an \<open>address\<close> has 160 bits, \<open>uint256\<close> 256 bits
  and \<open>uint24\<close> 24 bits. The contract is compiled with Solidity 0.8, so \<open>+\<close> and \<open>-\<close> on
  \<open>uint256\<close> revert with \<open>Panic(0x11)\<close> instead of wrapping, and an out-of-range array read
  reverts with \<open>Panic(0x32)\<close>.
\<close>

type_synonym address = "160 word"
type_synonym uint256 = "256 word"
type_synonym uint24 = "24 word"

subsection \<open>Errors\<close>

text \<open>
  The nine custom errors of the contract, followed by the three ways a call can revert
  without one of them: a compiler-inserted panic, the data-less revert of a failed
  \<open>abi.decode\<close>, and a revert that bubbles up from a token or from the lending pool.
\<close>

datatype error =
    Unauthorized
  | Paused
  | ReentrancyGuard
  | InvalidVault
  | InvalidCallbackCaller
  | InsufficientProfit uint256 uint256
  | SwapFailed uint256
  | ZeroBorrowAmount
  | EmptySwaps
  | Panic nat
  | DecodeRevert
  | ExternalRevert

definition ARITHMETIC_PANIC :: nat where
  "ARITHMETIC_PANIC = 0x11"

definition INDEX_PANIC :: nat where
  "INDEX_PANIC = 0x32"

definition checked_add :: "uint256 \<Rightarrow> uint256 \<Rightarrow> error + uint256" where
  "checked_add a b =
     (if unat a + unat b < 2 ^ 256 then Inr (a + b) else Inl (Panic ARITHMETIC_PANIC))"

definition checked_sub :: "uint256 \<Rightarrow> uint256 \<Rightarrow> error + uint256" where
  "checked_sub a b = (if b \<le> a then Inr (a - b) else Inl (Panic ARITHMETIC_PANIC))"

subsection \<open>Structs\<close>

record SwapInstruction =
  router :: address
  tokenIn :: address
  tokenOut :: address
  fee :: uint24
  amountIn :: uint256
  minAmountOut :: uint256

record ArbitrageParams =
  flashloanProvider :: address
  borrowToken :: address
  borrowAmount :: uint256
  minProfit :: uint256
  swaps :: "SwapInstruction list"

record CallbackData =
  borrowToken :: address
  borrowAmount :: uint256
  minProfit :: uint256
  swaps :: "SwapInstruction list"

text \<open>
  A \<open>bytes\<close> payload is only ever produced by \<open>abi.encode(CallbackData{..})\<close> and consumed
  by \<open>abi.decode(.., (CallbackData))\<close>. It is represented by what the decoder makes of it:
  \<open>None\<close> stands for every byte string that does not decode (the decoder reverts without
  data), \<open>Some d\<close> for the encoding of \<open>d\<close>.
\<close>

type_synonym bytes = "CallbackData option"

definition abi_encode :: "CallbackData \<Rightarrow> bytes" where
  "abi_encode d = Some d"

definition abi_decode :: "bytes \<Rightarrow> error + CallbackData" where
  "abi_decode b = (case b of None \<Rightarrow> Inl DecodeRevert | Some d \<Rightarrow> Inr d)"

subsection \<open>Events\<close>

text \<open>The \<open>gasUsed\<close> argument of \<open>ArbitrageExecuted\<close> is left out: gas is not modelled.\<close>

datatype event =
    ArbitrageExecuted address uint256 uint256
  | OwnershipTransferred address address
  | VaultUpdated address address
  | PauseToggled bool
  | MinProfitUpdated uint256 uint256
  | EmergencyWithdraw address uint256

subsection \<open>The world: contract storage and the token ledger\<close>

text \<open>
  The ERC-20 tokens are external contracts used through \<open>IERC20\<close>. They are modelled as
  standard tokens over one ledger: \<open>balances L token holder\<close> and
  \<open>allowances L token holder spender\<close>; \<open>transfer\<close> and \<open>transferFrom\<close> revert
  (\<open>None\<close>) when the balance or the allowance does not cover the amount.
\<close>

record Ledger =
  balances :: "address \<Rightarrow> address \<Rightarrow> uint256"
  allowances :: "address \<Rightarrow> address \<Rightarrow> address \<Rightarrow> uint256"

definition balanceOf :: "Ledger \<Rightarrow> address \<Rightarrow> address \<Rightarrow> uint256" where
  "balanceOf L token account = balances L token account"

definition approve :: "Ledger \<Rightarrow> address \<Rightarrow> address \<Rightarrow> address \<Rightarrow> uint256 \<Rightarrow> Ledger" where
  "approve L token holder spender amount =
     L\<lparr>allowances := (allowances L)
         (token := (allowances L token)
            (holder := (allowances L token holder)(spender := amount)))\<rparr>"

definition transfer :: "Ledger \<Rightarrow> address \<Rightarrow> address \<Rightarrow> address \<Rightarrow> uint256 \<Rightarrow> Ledger option" where
  "transfer L token src dst amount =
     (if balances L token src < amount then None
      else
        let b1 = (balances L token)(src := balances L token src - amount)
        in if unat (b1 dst) + unat amount < 2 ^ 256
           then Some (L\<lparr>balances := (balances L)(token := b1(dst := b1 dst + amount))\<rparr>)
           else None)"

definition transferFrom ::
  "Ledger \<Rightarrow> address \<Rightarrow> address \<Rightarrow> address \<Rightarrow> address \<Rightarrow> uint256 \<Rightarrow> Ledger option" where
  "transferFrom L token spender src dst amount =
     (if allowances L token src spender < amount then None
      else transfer
             (L\<lparr>allowances := (allowances L)
                 (token := (allowances L token)
                    (src := (allowances L token src)
                       (spender := allowances L token src spender - amount)))\<rparr>)
             token src dst amount)"

text \<open>
  The state variables of the contract (\<open>_status\<close> is written \<open>status\<close>), its own address
  \<open>this\<close>, the immutable \<open>aavePool\<close>, the ledger and the log of emitted events.
\<close>

definition NOT_ENTERED :: uint256 where
  "NOT_ENTERED = 1"

definition ENTERED :: uint256 where
  "ENTERED = 2"

record World =
  this :: address
  owner :: address
  vault :: address
  aavePool :: address
  paused :: bool
  status :: uint256
  minProfitBps :: uint256
  ledger :: Ledger
  events :: "event list"

definition emit :: "event \<Rightarrow> World \<Rightarrow> World" where
  "emit ev w = w\<lparr>events := events w @ [ev]\<rparr>"

subsection \<open>External contracts\<close>

text \<open>
  The wrapped protocols are parameters of the model. \<open>getPool factory a b f\<close> is the
  Uniswap V3 factory's view function; \<open>exactInputSingle r p sender L\<close> is the swap of
  router \<open>r\<close> called by \<open>sender\<close>: \<open>None\<close> when it reverts, otherwise the new ledger and the
  amount received; \<open>flashPremium asset amount\<close> is the premium the Aave pool charges.
  An external contract is modelled as acting on the ledger only. A call back into the
  executor from inside a swap or a token is not part of a run of the model: what the
  executor does with such a call is what its external functions do on a world whose lock
  is set.
\<close>

record ExactInputSingleParams =
  p_tokenIn :: address
  p_tokenOut :: address
  p_fee :: uint24
  p_recipient :: address
  p_amountIn :: uint256
  p_amountOutMinimum :: uint256
  p_sqrtPriceLimitX96 :: "160 word"

record Env =
  getPool :: "address \<Rightarrow> address \<Rightarrow> address \<Rightarrow> uint24 \<Rightarrow> address"
  exactInputSingle ::
    "address \<Rightarrow> ExactInputSingleParams \<Rightarrow> address \<Rightarrow> Ledger \<Rightarrow> (Ledger \<times> uint256) option"
  flashPremium :: "address \<Rightarrow> uint256 \<Rightarrow> uint256"

definition AAVE_POOL_PROVIDER :: address where
  "AAVE_POOL_PROVIDER = 0xe20fCBdBfFC4Dd138cE8b2E6FBb6CB49777ad64D"

definition UNISWAP_V3_ROUTER :: address where
  "UNISWAP_V3_ROUTER = 0x2626664c2603336E57B271c5C0b26F421741e481"

definition UNISWAP_V3_FACTORY :: address where
  "UNISWAP_V3_FACTORY = 0x33128a8fC17869897dcE68Ed026d694621f6FDfD"

definition SUSHI_V3_FACTORY :: address where
  "SUSHI_V3_FACTORY = 0xc35DADB65012eC5796536bD9864eD8773aBc74C4"

definition WETH :: address where
  "WETH = 0x4200000000000000000000000000000000000006"

definition USDC :: address where
  "USDC = 0x833589fCD6eDb6E08f4c7C32D4f71b54bdA02913"

definition USDT :: address where
  "USDT = 0xfde4C96c8593536E31F229EA8f37b2ADa2699bb2"

definition DAI :: address where
  "DAI = 0x50c5725949A6F0c72E6C4a641F24049A917DB0Cb"

subsection \<open>Constructor\<close>


subsection \<open>\<open>_executeSwaps\<close>\<close>

text \<open>
  The \<open>for\<close> loop over the swap array, as a recursion on the remaining instructions with
  the loop index \<open>i\<close>. A zero \<open>amountIn\<close> is replaced by the executor's balance of
  \<open>tokenIn\<close>; the router is approved for that amount; a reverting router call is caught and
  turned into \<open>SwapFailed(i)\<close>.
\<close>

fun executeSwaps :: "Env \<Rightarrow> World \<Rightarrow> nat \<Rightarrow> SwapInstruction list \<Rightarrow> error + World" where
  "executeSwaps e w i [] = Inr w"
| "executeSwaps e w i (swap # rest) =
     (let amt = (if amountIn swap = 0 then balanceOf (ledger w) (tokenIn swap) (this w)
                 else amountIn swap);
          L1 = approve (ledger w) (tokenIn swap) (this w) (router swap) amt
      in case exactInputSingle e (router swap)
                \<lparr>p_tokenIn = tokenIn swap, p_tokenOut = tokenOut swap, p_fee = fee swap,
                 p_recipient = this w, p_amountIn = amt,
                 p_amountOutMinimum = minAmountOut swap, p_sqrtPriceLimitX96 = 0\<rparr>
                (this w) L1 of
           None \<Rightarrow> Inl (SwapFailed (of_nat i))
         | Some (L2, out) \<Rightarrow> executeSwaps e (w\<lparr>ledger := L2\<rparr>) (Suc i) rest)"

subsection \<open>Flashloan callbacks\<close>

text \<open>
  Lines 222 to 234 of \<open>executeOperation\<close>: the repayment is \<open>amount + premium\<close>, the
  profit check compares the balance of the asset with \<open>amountOwed + minProfit\<close>, and the
  revert carries \<open>balance - amountOwed\<close>, itself a checked subtraction.
\<close>

definition settleAave :: "World \<Rightarrow> address \<Rightarrow> uint256 \<Rightarrow> uint256 \<Rightarrow> uint256 \<Rightarrow> error + World" where
  "settleAave w asset amount premium minP =
     (case checked_add amount premium of
        Inl err \<Rightarrow> Inl err
      | Inr amountOwed \<Rightarrow>
          let balance = balanceOf (ledger w) asset (this w)
          in case checked_add amountOwed minP of
               Inl err \<Rightarrow> Inl err
             | Inr required \<Rightarrow>
                 if balance < required
                 then (case checked_sub balance amountOwed of
                         Inl err \<Rightarrow> Inl err
                       | Inr profit \<Rightarrow> Inl (InsufficientProfit profit minP))
                 else Inr (w\<lparr>ledger := approve (ledger w) asset (this w) (aavePool w) amountOwed\<rparr>))"

definition executeOperation ::
  "Env \<Rightarrow> World \<Rightarrow> address \<Rightarrow> address \<Rightarrow> uint256 \<Rightarrow> uint256 \<Rightarrow> address \<Rightarrow> bytes \<Rightarrow> error + World" where
  "executeOperation e w sender asset amount premium initiator params =
     (if sender \<noteq> aavePool w then Inl InvalidCallbackCaller
      else if initiator \<noteq> this w then Inl Unauthorized
      else case abi_decode params of
             Inl err \<Rightarrow> Inl err
           | Inr data \<Rightarrow>
               (case executeSwaps e w 0 (CallbackData.swaps data) of
                  Inl err \<Rightarrow> Inl err
                | Inr w1 \<Rightarrow> settleAave w1 asset amount premium (CallbackData.minProfit data)))"

definition uniswapV3FlashCallback ::
  "Env \<Rightarrow> World \<Rightarrow> address \<Rightarrow> uint256 \<Rightarrow> uint256 \<Rightarrow> bytes \<Rightarrow> error + World" where
  "uniswapV3FlashCallback e w sender fee0 fee1 data =
     (case abi_decode data of
        Inl err \<Rightarrow> Inl err
      | Inr callbackData \<Rightarrow>
          (case CallbackData.swaps callbackData of
             [] \<Rightarrow> Inl (Panic INDEX_PANIC)
           | s0 # _ \<Rightarrow>
               let expectedPool = getPool e UNISWAP_V3_FACTORY (tokenIn s0) (tokenOut s0) (fee s0)
               in if sender \<noteq> expectedPool then Inl InvalidCallbackCaller
                  else case executeSwaps e w 0 (CallbackData.swaps callbackData) of
                         Inl err \<Rightarrow> Inl err
                       | Inr w1 \<Rightarrow>
                           let fee' = (if fee0 > 0 then fee0 else fee1)
                           in case checked_add (CallbackData.borrowAmount callbackData) fee' of
                                Inl err \<Rightarrow> Inl err
                              | Inr amountOwed \<Rightarrow>
                                  let balance = balanceOf (ledger w1)
                                        (CallbackData.borrowToken callbackData) (this w1)
                                  in case checked_add amountOwed
                                            (CallbackData.minProfit callbackData) of
                                       Inl err \<Rightarrow> Inl err
                                     | Inr required \<Rightarrow>
                                         if balance < required
                                         then (case checked_sub balance amountOwed of
                                                 Inl err \<Rightarrow> Inl err
                                               | Inr profit \<Rightarrow>
                                                   Inl (InsufficientProfit profit
                                                         (CallbackData.minProfit callbackData)))
                                         else (case transfer (ledger w1)
                                                      (CallbackData.borrowToken callbackData)
                                                      (this w1) sender amountOwed of
                                                 None \<Rightarrow> Inl ExternalRevert
                                               | Some L2 \<Rightarrow> Inr (w1\<lparr>ledger := L2\<rparr>))))"

subsection \<open>The Aave pool\<close>

text \<open>
  \<open>IPool.flashLoanSimple\<close> as its interface documents it, called by the executor with itself
  as receiver: the pool sends \<open>amount\<close> of the asset to the receiver, calls the receiver's
  \<open>executeOperation\<close> with the caller of \<open>flashLoanSimple\<close> as initiator, and then pulls
  \<open>amount + premium\<close> back with \<open>transferFrom\<close>. A revert of the callback bubbles up
  unchanged; a failing transfer reverts the call.
\<close>

definition flashLoanSimple ::
  "Env \<Rightarrow> World \<Rightarrow> address \<Rightarrow> uint256 \<Rightarrow> bytes \<Rightarrow> error + World" where
  "flashLoanSimple e w asset amount params =
     (let premium = flashPremium e asset amount
      in case transfer (ledger w) asset (aavePool w) (this w) amount of
           None \<Rightarrow> Inl ExternalRevert
         | Some L1 \<Rightarrow>
             (case executeOperation e (w\<lparr>ledger := L1\<rparr>) (aavePool w) asset amount premium
                     (this w) params of
                Inl err \<Rightarrow> Inl err
              | Inr w2 \<Rightarrow>
                  (if unat amount + unat premium < 2 ^ 256
                   then (case transferFrom (ledger w2) asset (aavePool w2) (this w2) (aavePool w2)
                                 (amount + premium) of
                           None \<Rightarrow> Inl ExternalRevert
                         | Some L3 \<Rightarrow> Inr (w2\<lparr>ledger := L3\<rparr>))
                   else Inl ExternalRevert)))"

subsection \<open>\<open>executeWithAave\<close>\<close>

text \<open>
  The function body between \<open>_status = ENTERED\<close> and \<open>_status = NOT_ENTERED\<close>, then the
  function with its three modifiers in the order \<open>onlyOwner\<close>, \<open>whenNotPaused\<close>,
  \<open>nonReentrant\<close>.
\<close>

definition executeWithAave_body :: "Env \<Rightarrow> World \<Rightarrow> ArbitrageParams \<Rightarrow> error + World" where
  "executeWithAave_body e w params =
     (if ArbitrageParams.borrowAmount params = 0 then Inl ZeroBorrowAmount
      else if ArbitrageParams.swaps params = [] then Inl EmptySwaps
      else
        let callbackData = abi_encode
              \<lparr>CallbackData.borrowToken = ArbitrageParams.borrowToken params,
               CallbackData.borrowAmount = ArbitrageParams.borrowAmount params,
               CallbackData.minProfit = ArbitrageParams.minProfit params,
               CallbackData.swaps = ArbitrageParams.swaps params\<rparr>;
            balanceBefore = balanceOf (ledger w) (ArbitrageParams.borrowToken params) (this w)
        in case flashLoanSimple e w (ArbitrageParams.borrowToken params)
                  (ArbitrageParams.borrowAmount params) callbackData of
             Inl err \<Rightarrow> Inl err
           | Inr w1 \<Rightarrow>
               let balanceAfter = balanceOf (ledger w1) (ArbitrageParams.borrowToken params) (this w1)
               in case checked_sub balanceAfter balanceBefore of
                    Inl err \<Rightarrow> Inl err
                  | Inr profit \<Rightarrow>
                      (if profit > 0
                       then (case transfer (ledger w1) (ArbitrageParams.borrowToken params)
                                     (this w1) (vault w1) profit of
                               None \<Rightarrow> Inl ExternalRevert
                             | Some L2 \<Rightarrow>
                                 Inr (emit (ArbitrageExecuted (ArbitrageParams.borrowToken params)
                                              (ArbitrageParams.borrowAmount params) profit)
                                        (w1\<lparr>ledger := L2\<rparr>)))
                       else Inr (emit (ArbitrageExecuted (ArbitrageParams.borrowToken params)
                                         (ArbitrageParams.borrowAmount params) profit) w1)))"

definition executeWithAave :: "Env \<Rightarrow> World \<Rightarrow> address \<Rightarrow> ArbitrageParams \<Rightarrow> error + World" where
  "executeWithAave e w sender params =
     (if sender \<noteq> owner w then Inl Unauthorized
      else if paused w then Inl Paused
      else if status w = ENTERED then Inl ReentrancyGuard
      else case executeWithAave_body e (w\<lparr>status := ENTERED\<rparr>) params of
             Inl err \<Rightarrow> Inl err
           | Inr w1 \<Rightarrow> Inr (w1\<lparr>status := NOT_ENTERED\<rparr>))"

subsection \<open>Administrative functions\<close>






subsection \<open>Calls and transactions\<close>





section \<open>The off-chain bot (bot/priceMonitor.js, bot/opportunityDetector.js, bot/calldataEncoder.js)\<close>

subsection \<open>JavaScript numbers\<close>

text \<open>
  A JavaScript \<open>Number\<close> is a finite value, \<open>Infinity\<close>, \<open>-Infinity\<close> or \<open>NaN\<close>. Finite
  values are modelled as exact reals: the rounding of binary floating point, overflow to
  infinity and the sign of zero are not modelled. The special values are, with the rules of
  IEEE 754 for them: a division by zero gives an infinity or \<open>NaN\<close>, every comparison with
  \<open>NaN\<close> is false.
\<close>

datatype jsnum = Fin real | PInf | NInf | NaN

fun js_sign :: "jsnum \<Rightarrow> real" where
  "js_sign (Fin a) = sgn a"
| "js_sign PInf = 1"
| "js_sign NInf = - 1"
| "js_sign NaN = 0"

fun js_neg :: "jsnum \<Rightarrow> jsnum" where
  "js_neg (Fin a) = Fin (- a)"
| "js_neg PInf = NInf"
| "js_neg NInf = PInf"
| "js_neg NaN = NaN"

fun js_add :: "jsnum \<Rightarrow> jsnum \<Rightarrow> jsnum" where
  "js_add (Fin a) (Fin b) = Fin (a + b)"
| "js_add NaN y = NaN"
| "js_add x NaN = NaN"
| "js_add PInf NInf = NaN"
| "js_add NInf PInf = NaN"
| "js_add PInf y = PInf"
| "js_add x PInf = PInf"
| "js_add NInf y = NInf"
| "js_add x NInf = NInf"

definition js_sub :: "jsnum \<Rightarrow> jsnum \<Rightarrow> jsnum" where
  "js_sub x y = js_add x (js_neg y)"

fun js_mul :: "jsnum \<Rightarrow> jsnum \<Rightarrow> jsnum" where
  "js_mul (Fin a) (Fin b) = Fin (a * b)"
| "js_mul NaN y = NaN"
| "js_mul x NaN = NaN"
| "js_mul x y =
     (if js_sign x * js_sign y > 0 then PInf
      else if js_sign x * js_sign y < 0 then NInf else NaN)"

fun js_div :: "jsnum \<Rightarrow> jsnum \<Rightarrow> jsnum" where
  "js_div (Fin a) (Fin b) =
     (if b \<noteq> 0 then Fin (a / b)
      else if a > 0 then PInf else if a < 0 then NInf else NaN)"
| "js_div NaN y = NaN"
| "js_div x NaN = NaN"
| "js_div (Fin a) y = Fin 0"
| "js_div x (Fin b) = (if (js_sign x < 0) = (b < 0) then PInf else NInf)"
| "js_div x y = NaN"

fun Math_abs :: "jsnum \<Rightarrow> jsnum" where
  "Math_abs (Fin a) = Fin \<bar>a\<bar>"
| "Math_abs PInf = PInf"
| "Math_abs NInf = PInf"
| "Math_abs NaN = NaN"

fun js_lt :: "jsnum \<Rightarrow> jsnum \<Rightarrow> bool" where
  "js_lt (Fin a) (Fin b) = (a < b)"
| "js_lt NaN y = False"
| "js_lt x NaN = False"
| "js_lt x NInf = False"
| "js_lt NInf y = True"
| "js_lt PInf y = False"
| "js_lt x PInf = True"

definition js_gt :: "jsnum \<Rightarrow> jsnum \<Rightarrow> bool" where
  "js_gt x y = js_lt y x"

definition js_le :: "jsnum \<Rightarrow> jsnum \<Rightarrow> bool" where
  "js_le x y = (x \<noteq> NaN \<and> y \<noteq> NaN \<and> (x = y \<or> js_lt x y))"

definition js_ge :: "jsnum \<Rightarrow> jsnum \<Rightarrow> bool" where
  "js_ge x y = js_le y x"

fun Math_floor :: "jsnum \<Rightarrow> jsnum" where
  "Math_floor (Fin a) = Fin (of_int \<lfloor>a\<rfloor>)"
| "Math_floor x = x"

definition Math_max :: "jsnum \<Rightarrow> jsnum \<Rightarrow> jsnum" where
  "Math_max x y = (if x = NaN \<or> y = NaN then NaN else if js_lt x y then y else x)"

text \<open>
  \<open>x.toFixed(n)\<close> is a decimal string; a field that holds such a string is modelled by the
  number the string denotes (what \<open>parseFloat\<close> reads back from it). Below \<open>10^21\<close> that
  is \<open>x\<close> rounded to \<open>n\<close> decimals, a tie going away from zero; from \<open>10^21\<close> on, and for
  the special values, \<open>toFixed\<close> prints the number itself.
\<close>

fun toFixed :: "nat \<Rightarrow> jsnum \<Rightarrow> jsnum" where
  "toFixed n (Fin a) =
     (if \<bar>a\<bar> < 10 ^ 21 then Fin (sgn a * of_int \<lfloor>\<bar>a\<bar> * 10 ^ n + 1 / 2\<rfloor> / 10 ^ n)
      else Fin a)"
| "toFixed n x = x"

definition parseFloat :: "jsnum \<Rightarrow> jsnum" where
  "parseFloat x = x"

text \<open>
  A \<open>BigInt\<close> is an \<open>int\<close>; its division truncates towards zero. The decimal strings that
  \<open>BigInt(..)\<close> parses and \<open>.toString()\<close> prints are modelled by the integers they denote.
\<close>

definition bigint_div :: "int \<Rightarrow> int \<Rightarrow> int" where
  "bigint_div a b = sgn a * sgn b * (\<bar>a\<bar> div \<bar>b\<bar>)"

subsection \<open>Configuration (bot/config.js)\<close>

definition DECIMALS :: "address \<Rightarrow> nat option" where
  "DECIMALS t =
     (if t = WETH then Some 18 else if t = USDC then Some 6
      else if t = USDT then Some 6 else if t = DAI then Some 18 else None)"

definition AAVE_FLASH_FEE_BPS :: jsnum where
  "AAVE_FLASH_FEE_BPS = Fin 5"

definition SAFETY_MAX_SLIPPAGE_BPS :: jsnum where
  "SAFETY_MAX_SLIPPAGE_BPS = Fin 50"

definition SAFETY_MIN_PROFIT_USD :: jsnum where
  "SAFETY_MIN_PROFIT_USD = Fin (1 / 2)"

definition SAFETY_MIN_PROFIT_BPS :: jsnum where
  "SAFETY_MIN_PROFIT_BPS = Fin 10"

definition SAFETY_MAX_FLASHLOAN_PERCENT :: int where
  "SAFETY_MAX_FLASHLOAN_PERCENT = 10"

subsection \<open>PriceMonitor.findArbitrageOpportunities\<close>

text \<open>
  The objects that \<open>getPricesForPair\<close> pushes. Addresses are checksummed hex strings in the
  bot and are modelled by the addresses they denote; \<open>fee\<close> is one of the \<open>uint24\<close> fee
  tiers; \<open>liquidity\<close> is the decimal string of a \<open>uint128\<close>.
\<close>

record PriceData =
  dex :: string
  factory :: address
  pool :: address
  fee :: nat
  feePercent :: string
  token0 :: address
  token1 :: address
  price :: jsnum
  inversePrice :: jsnum
  liquidity :: int
  tick :: int
  timestamp :: int

record Opportunity =
  buyDex :: string
  buyPool :: address
  buyFee :: nat
  buyPrice :: jsnum
  sellDex :: string
  sellPool :: address
  sellFee :: nat
  sellPrice :: jsnum
  priceDiffPercent :: jsnum
  totalFeePercent :: jsnum
  grossProfitPercent :: jsnum
  buyLiquidity :: int
  sellLiquidity :: int
  token0 :: address
  token1 :: address

text \<open>The object literal that the loop body pushes, as a function of what it is built from.\<close>

definition opportunityFrom ::
  "PriceData \<Rightarrow> PriceData \<Rightarrow> jsnum \<Rightarrow> jsnum \<Rightarrow> jsnum \<Rightarrow> Opportunity" where
  "opportunityFrom buyFrom sellTo pdp tfp gpp =
     \<lparr>buyDex = dex buyFrom, buyPool = pool buyFrom, buyFee = PriceData.fee buyFrom,
      buyPrice = price buyFrom,
      sellDex = dex sellTo, sellPool = pool sellTo, sellFee = PriceData.fee sellTo,
      sellPrice = price sellTo,
      priceDiffPercent = pdp, totalFeePercent = tfp, grossProfitPercent = gpp,
      buyLiquidity = liquidity buyFrom, sellLiquidity = liquidity sellTo,
      token0 = PriceData.token0 buyFrom, token1 = PriceData.token1 buyFrom\<rparr>"

text \<open>The body of the inner loop for one pair: it pushes at most one opportunity.\<close>

definition comparePair :: "PriceData \<Rightarrow> PriceData \<Rightarrow> Opportunity list \<Rightarrow> Opportunity list" where
  "comparePair priceA priceB opportunities =
     (let priceDiff = Math_abs (js_sub (price priceA) (price priceB));
          avgPrice = js_div (js_add (price priceA) (price priceB)) (Fin 2);
          priceDiffPercent = js_mul (js_div priceDiff avgPrice) (Fin 100);
          totalFeeBps = js_div (Fin (real (PriceData.fee priceA + PriceData.fee priceB))) (Fin 100);
          totalFeePercent = js_div totalFeeBps (Fin 100);
          grossProfitPercent = js_sub priceDiffPercent totalFeePercent
      in if js_gt grossProfitPercent (Fin 0)
         then
           let buyFrom = (if js_lt (price priceA) (price priceB) then priceA else priceB);
               sellTo = (if js_lt (price priceA) (price priceB) then priceB else priceA)
           in opportunities @
                [opportunityFrom buyFrom sellTo priceDiffPercent totalFeePercent
                   grossProfitPercent]
         else opportunities)"

text \<open>The loop over \<open>j\<close> for a fixed \<open>i\<close>, and the loop over \<open>i\<close>.\<close>

fun innerLoop :: "PriceData \<Rightarrow> PriceData list \<Rightarrow> Opportunity list \<Rightarrow> Opportunity list" where
  "innerLoop priceA [] opportunities = opportunities"
| "innerLoop priceA (priceB # rest) opportunities =
     innerLoop priceA rest (comparePair priceA priceB opportunities)"

fun outerLoop :: "PriceData list \<Rightarrow> Opportunity list \<Rightarrow> Opportunity list" where
  "outerLoop [] opportunities = opportunities"
| "outerLoop (priceA # rest) opportunities = outerLoop rest (innerLoop priceA rest opportunities)"

text \<open>
  \<open>opportunities.sort((a, b) => b.grossProfitPercent - a.grossProfitPercent)\<close>:
  \<open>Array.prototype.sort\<close> is stable, and a comparator result that is not positive (zero,
  negative or \<open>NaN\<close>) keeps \<open>a\<close> in front of \<open>b\<close>. It is modelled as a stable insertion sort.
\<close>

definition byProfit :: "Opportunity \<Rightarrow> Opportunity \<Rightarrow> jsnum" where
  "byProfit a b = js_sub (grossProfitPercent b) (grossProfitPercent a)"

fun insertSorted :: "Opportunity \<Rightarrow> Opportunity list \<Rightarrow> Opportunity list" where
  "insertSorted a [] = [a]"
| "insertSorted a (b # rest) =
     (if js_gt (byProfit a b) (Fin 0) then b # insertSorted a rest else a # b # rest)"

definition sortByProfit :: "Opportunity list \<Rightarrow> Opportunity list" where
  "sortByProfit xs = foldr insertSorted xs []"

definition findArbitrageOpportunities :: "PriceData list \<Rightarrow> Opportunity list" where
  "findArbitrageOpportunities prices = sortByProfit (outerLoop prices [])"





subsection \<open>OpportunityDetector\<close>

record OpportunityDetector =
  minProfitUsd :: jsnum
  maxSlippageBps :: jsnum
  minProfitBps :: jsnum
  maxFlashloanPercent :: int
  ethPriceUsd :: jsnum
  baseFeeGwei :: jsnum

text \<open>The detector that \<open>new OpportunityDetector()\<close> builds when no environment variable is set.\<close>

definition defaultDetector :: OpportunityDetector where
  "defaultDetector =
     \<lparr>minProfitUsd = SAFETY_MIN_PROFIT_USD, maxSlippageBps = SAFETY_MAX_SLIPPAGE_BPS,
      minProfitBps = SAFETY_MIN_PROFIT_BPS, maxFlashloanPercent = SAFETY_MAX_FLASHLOAN_PERCENT,
      ethPriceUsd = Fin 3000, baseFeeGwei = Fin (1 / 1000)\<rparr>"

record SizingResult =
  maxFlashloan :: int
  optimalAmount :: int
  constrainingLiquidity :: int
  limitingPool :: string

definition calculateOptimalAmount :: "OpportunityDetector \<Rightarrow> Opportunity \<Rightarrow> SizingResult" where
  "calculateOptimalAmount d opp =
     (let buyLiquidity = buyLiquidity opp;
          sellLiquidity = sellLiquidity opp;
          constrainingLiquidity = (if buyLiquidity < sellLiquidity then buyLiquidity else sellLiquidity);
          maxFlashloan = bigint_div (constrainingLiquidity * maxFlashloanPercent d) 100;
          optimalAmount = bigint_div maxFlashloan 10
      in \<lparr>maxFlashloan = maxFlashloan, optimalAmount = optimalAmount,
          constrainingLiquidity = constrainingLiquidity,
          limitingPool = (if buyLiquidity < sellLiquidity then ''buy'' else ''sell'')\<rparr>)"

record SlippageEstimate =
  slippageBps :: jsnum
  acceptable :: bool
  maxAllowedBps :: "jsnum option"

definition modelSlippage :: "OpportunityDetector \<Rightarrow> int \<Rightarrow> int \<Rightarrow> nat \<Rightarrow> SlippageEstimate" where
  "modelSlippage d tradeSize liq feeTier =
     (if liq = 0
      then \<lparr>slippageBps = Fin 10000, acceptable = False, maxAllowedBps = None\<rparr>
      else
        let impactRatio = bigint_div (tradeSize * 10000) liq;
            feeMultiplier = (if feeTier = 100 then 3 else if feeTier = 500 then 2 else 1);
            slippageBps = js_mul (Fin (of_int impactRatio)) (Fin feeMultiplier)
        in \<lparr>slippageBps = slippageBps, acceptable = js_le slippageBps (maxSlippageBps d),
            maxAllowedBps = Some (maxSlippageBps d)\<rparr>)"

record GasEstimate =
  gasUnits :: jsnum
  gasPriceGwei :: jsnum
  gasCostEth :: jsnum
  gasCostUsd :: jsnum

definition estimateGasCost :: "OpportunityDetector \<Rightarrow> GasEstimate" where
  "estimateGasCost d =
     (let gasUnits = Fin 350000;
          gasPriceGwei = baseFeeGwei d;
          gasCostEth = js_div (js_mul gasUnits gasPriceGwei) (Fin (10 ^ 9));
          gasCostUsd = js_mul gasCostEth (ethPriceUsd d)
      in \<lparr>gasUnits = gasUnits, gasPriceGwei = gasPriceGwei, gasCostEth = gasCostEth,
          gasCostUsd = gasCostUsd\<rparr>)"

record ProfitAnalysis =
  borrowAmount :: int
  borrowAmountFormatted :: jsnum
  grossProfitPercent :: jsnum
  grossProfitAmount :: jsnum
  flashFeePercent :: jsnum
  flashFeeAmount :: jsnum
  totalSlippagePercent :: jsnum
  slippageCost :: jsnum
  gasCostUsd :: jsnum
  netProfitBeforeGas :: jsnum
  netProfitAfterGas :: jsnum
  profitBps :: jsnum
  slippageAcceptable :: bool
  profitAcceptable :: bool
  bpsAcceptable :: bool
  isViable :: bool

text \<open>
  \<open>calculateProfit(opportunity, borrowAmount, tokenDecimals)\<close>, its parameters written
  \<open>opp\<close> and \<open>amt\<close>; \<open>formatUnits(amount, n)\<close> is the decimal string of \<open>amount / 10^n\<close>.
\<close>

definition calculateProfit ::
  "OpportunityDetector \<Rightarrow> Opportunity \<Rightarrow> int \<Rightarrow> nat \<Rightarrow> ProfitAnalysis" where
  "calculateProfit d opp amt tokenDecimals =
     (let amount = amt;
          amountFloat = Fin (of_int amount / 10 ^ tokenDecimals);
          grossProfitPercent = js_div (Opportunity.grossProfitPercent opp) (Fin 100);
          grossProfitAmount = js_mul amountFloat grossProfitPercent;
          flashFeePercent = js_div AAVE_FLASH_FEE_BPS (Fin 10000);
          flashFeeAmount = js_mul amountFloat flashFeePercent;
          buySlippage = modelSlippage d amt (buyLiquidity opp) (buyFee opp);
          sellSlippage = modelSlippage d amt (sellLiquidity opp) (sellFee opp);
          totalSlippagePercent =
            js_div (js_add (slippageBps buySlippage) (slippageBps sellSlippage)) (Fin 10000);
          slippageCost = js_mul amountFloat totalSlippagePercent;
          gasEstimate = estimateGasCost d;
          netProfitBeforeGas = js_sub (js_sub grossProfitAmount flashFeeAmount) slippageCost;
          netProfitAfterGas = js_sub netProfitBeforeGas (GasEstimate.gasCostUsd gasEstimate);
          profitBps = js_mul (js_div netProfitAfterGas amountFloat) (Fin 10000)
      in \<lparr>borrowAmount = amt,
          borrowAmountFormatted = toFixed 6 amountFloat,
          grossProfitPercent = toFixed 4 (js_mul grossProfitPercent (Fin 100)),
          grossProfitAmount = toFixed 6 grossProfitAmount,
          flashFeePercent = toFixed 4 (js_mul flashFeePercent (Fin 100)),
          flashFeeAmount = toFixed 6 flashFeeAmount,
          totalSlippagePercent = toFixed 4 (js_mul totalSlippagePercent (Fin 100)),
          slippageCost = toFixed 6 slippageCost,
          gasCostUsd = toFixed 6 (GasEstimate.gasCostUsd gasEstimate),
          netProfitBeforeGas = toFixed 6 netProfitBeforeGas,
          netProfitAfterGas = toFixed 6 netProfitAfterGas,
          profitBps = toFixed 2 profitBps,
          slippageAcceptable = (acceptable buySlippage \<and> acceptable sellSlippage),
          profitAcceptable = js_ge netProfitAfterGas (minProfitUsd d),
          bpsAcceptable = js_ge profitBps (OpportunityDetector.minProfitBps d),
          isViable = (acceptable buySlippage \<and> acceptable sellSlippage \<and>
                      js_ge netProfitAfterGas (minProfitUsd d) \<and>
                      js_ge profitBps (OpportunityDetector.minProfitBps d))\<rparr>)"

record Evaluation =
  opportunity :: Opportunity
  sizing :: SizingResult
  profitAnalysis :: ProfitAnalysis
  shouldExecute :: bool

text \<open>\<open>evaluate(opportunity)\<close>, without the \<open>reason\<close> text; \<open>DECIMALS[token] || 18\<close>.\<close>

definition evaluate :: "OpportunityDetector \<Rightarrow> Opportunity \<Rightarrow> Evaluation" where
  "evaluate d opp =
     (let sizing = calculateOptimalAmount d opp;
          token0Decimals = (case DECIMALS (Opportunity.token0 opp) of
                              None \<Rightarrow> 18 | Some n \<Rightarrow> if n = 0 then 18 else n);
          profitAnalysis = calculateProfit d opp (optimalAmount sizing) token0Decimals
      in \<lparr>opportunity = opp, sizing = sizing, profitAnalysis = profitAnalysis,
          shouldExecute = isViable profitAnalysis\<rparr>)"

subsection \<open>CalldataEncoder\<close>

text \<open>
  The objects of the encoder. An amount is a decimal string, modelled by its integer;
  \<open>minProfit\<close> is the string of a \<open>Number\<close>. An option that may be left out of the argument
  of \<open>createSwapInstruction\<close> is an \<open>option\<close>; a string that is present is never falsy here,
  so \<open>x || default\<close> takes the default exactly when the option is missing.
\<close>

record SwapOptions =
  o_router :: "address option"
  o_tokenIn :: address
  o_tokenOut :: address
  o_fee :: nat
  o_amountIn :: "int option"
  o_minAmountOut :: "int option"

record Swap =
  router :: address
  tokenIn :: address
  tokenOut :: address
  fee :: nat
  amountIn :: int
  minAmountOut :: int

record Route =
  flashloanProvider :: address
  borrowToken :: address
  borrowAmount :: int
  minProfit :: jsnum
  swaps :: "Swap list"

record CalldataEncoder =
  executorAddress :: address

definition createSwapInstruction :: "SwapOptions \<Rightarrow> Swap" where
  "createSwapInstruction options =
     \<lparr>router = (case o_router options of None \<Rightarrow> UNISWAP_V3_ROUTER | Some r \<Rightarrow> r),
      tokenIn = o_tokenIn options,
      tokenOut = o_tokenOut options,
      fee = o_fee options,
      amountIn = (case o_amountIn options of None \<Rightarrow> 0 | Some a \<Rightarrow> a),
      minAmountOut = (case o_minAmountOut options of None \<Rightarrow> 1 | Some m \<Rightarrow> m)\<rparr>"

definition buildArbitrageParams ::
  "CalldataEncoder \<Rightarrow> Opportunity \<Rightarrow> SizingResult \<Rightarrow> ProfitAnalysis \<Rightarrow> Route" where
  "buildArbitrageParams enc opp sz pa =
     (let borrowToken = Opportunity.token0 opp;
          borrowAmount = optimalAmount sz;
          expectedProfit = parseFloat (netProfitAfterGas pa);
          minProfit = Math_max (Fin 0)
                        (Math_floor (js_mul (js_mul expectedProfit (Fin (1 / 2))) (Fin (10 ^ 6))));
          swaps =
            [createSwapInstruction
               \<lparr>o_router = Some UNISWAP_V3_ROUTER,
                o_tokenIn = Opportunity.token0 opp,
                o_tokenOut = Opportunity.token1 opp,
                o_fee = buyFee opp,
                o_amountIn = Some borrowAmount,
                o_minAmountOut = Some 1\<rparr>,
             createSwapInstruction
               \<lparr>o_router = Some UNISWAP_V3_ROUTER,
                o_tokenIn = Opportunity.token1 opp,
                o_tokenOut = Opportunity.token0 opp,
                o_fee = sellFee opp,
                o_amountIn = Some 0,
                o_minAmountOut = Some borrowAmount\<rparr>]
      in \<lparr>flashloanProvider = executorAddress enc,
          borrowToken = borrowToken,
          borrowAmount = borrowAmount,
          minProfit = minProfit,
          swaps = swaps\<rparr>)"

text \<open>
  The venue a router belongs to. \<open>config.js\<close> and \<open>Config.sol\<close> configure one router, the
  Uniswap V3 SwapRouter02; the venue names are those of the \<open>factories\<close> list of
  \<open>getPricesForPair\<close>.
\<close>

definition venueOfRouter :: "address \<Rightarrow> string option" where
  "venueOfRouter r = (if r = UNISWAP_V3_ROUTER then Some ''Uniswap'' else None)"

section \<open>Concrete instances\<close>

text \<open>
  A small environment on which the model can be run: a router that pays out the amount it
  receives plus 10 on the fee tier 500, minus 5 on the fee tier 3000 and unchanged on any
  other tier; a factory with one pool; a lending pool with a premium of 1; and an executor at
  address \<open>0xE0\<close> that holds \<open>x\<close> units of WETH.
\<close>

definition exampleRouter ::
  "address \<Rightarrow> ExactInputSingleParams \<Rightarrow> address \<Rightarrow> Ledger \<Rightarrow> (Ledger \<times> uint256) option" where
  "exampleRouter r p sender L =
     (case transferFrom L (p_tokenIn p) r sender r (p_amountIn p) of
        None \<Rightarrow> None
      | Some L1 \<Rightarrow>
          let out = (if p_fee p = 500 then p_amountIn p + 10
                     else if p_fee p = 3000 then p_amountIn p - 5 else p_amountIn p)
          in if out < p_amountOutMinimum p then None
             else (case transfer L1 (p_tokenOut p) r (p_recipient p) out of
                     None \<Rightarrow> None
                   | Some L2 \<Rightarrow> Some (L2, out)))"

definition exampleEnv :: Env where
  "exampleEnv =
     \<lparr>getPool = (\<lambda>f a b t. if f = UNISWAP_V3_FACTORY then 0xB0 else 0),
      exactInputSingle = exampleRouter,
      flashPremium = (\<lambda>asset amount. 1)\<rparr>"

definition exampleWorld :: "uint256 \<Rightarrow> World" where
  "exampleWorld x =
     \<lparr>this = 0xE0, owner = 0xA0, vault = 0xA1, aavePool = 0xAA, paused = False,
      status = NOT_ENTERED, minProfitBps = 10,
      ledger = \<lparr>balances = (\<lambda>t h. if h = 0xE0 then (if t = WETH then x else 0) else 1000000),
                allowances = (\<lambda>t h s. 0)\<rparr>,
      events = []\<rparr>"

definition exampleSwaps :: "uint24 \<Rightarrow> uint24 \<Rightarrow> uint256 \<Rightarrow> SwapInstruction list" where
  "exampleSwaps f1 f2 m =
     [\<lparr>SwapInstruction.router = UNISWAP_V3_ROUTER, tokenIn = WETH, tokenOut = USDC, fee = f1,
       amountIn = 1000, minAmountOut = 1\<rparr>,
      \<lparr>SwapInstruction.router = UNISWAP_V3_ROUTER, tokenIn = USDC, tokenOut = WETH, fee = f2,
       amountIn = 0, minAmountOut = m\<rparr>]"

definition exampleParams :: "uint24 \<Rightarrow> uint24 \<Rightarrow> uint256 \<Rightarrow> uint256 \<Rightarrow> ArbitrageParams" where
  "exampleParams f1 f2 m minP =
     \<lparr>ArbitrageParams.flashloanProvider = 0xAA, borrowToken = WETH, borrowAmount = 1000,
      minProfit = minP, swaps = exampleSwaps f1 f2 m\<rparr>"

definition examplePayload :: "uint24 \<Rightarrow> uint24 \<Rightarrow> uint256 \<Rightarrow> uint256 \<Rightarrow> bytes" where
  "examplePayload f1 f2 m minP =
     abi_encode \<lparr>CallbackData.borrowToken = WETH, borrowAmount = 1000, minProfit = minP,
                 swaps = exampleSwaps f1 f2 m\<rparr>"

text \<open>
  Quotes for WETH/USDC, with the venue, the price, the fee tier and the liquidity left open;
  a detector that tolerates 100 bps of slippage; an encoder for the executor at \<open>0xE0\<close>.
\<close>

definition exampleQuote :: "string \<Rightarrow> real \<Rightarrow> nat \<Rightarrow> int \<Rightarrow> PriceData" where
  "exampleQuote venue p f liq =
     \<lparr>dex = venue,
      factory = (if venue = ''Uniswap'' then UNISWAP_V3_FACTORY else SUSHI_V3_FACTORY),
      pool = (if venue = ''Uniswap'' then 0xB0 else 0xB1),
      fee = f, feePercent = [], token0 = WETH, token1 = USDC,
      price = Fin p, inversePrice = Fin (1 / p), liquidity = liq, tick = 0, timestamp = 0\<rparr>"

definition exampleDetector :: OpportunityDetector where
  "exampleDetector = defaultDetector\<lparr>maxSlippageBps := Fin 100\<rparr>"

definition exampleEncoder :: CalldataEncoder where
  "exampleEncoder = \<lparr>executorAddress = 0xE0\<rparr>"

text \<open>
  Two quote lists: a SushiSwap pool at 2850 against a Uniswap pool at 3150, both on the fee
  tier 3000, with the opportunity the detector finds in it; and the three quotes at 3000,
  3005 and 3050 on the fee tiers 500, 3000 and 500.
\<close>

definition exampleOpportunity :: Opportunity where
  "exampleOpportunity =
     opportunityFrom (exampleQuote ''SushiSwap'' 2850 3000 1000000000000000000000000)
       (exampleQuote ''Uniswap'' 3150 3000 1000000000000000000000000) (Fin 10) (Fin (3 / 5)) (Fin (47 / 5))"


section \<open>Properties of the executor\<close>

subsection \<open>Who may call the flashloan callbacks\<close>

lemmas example_defs =
  exampleRouter_def exampleEnv_def exampleWorld_def exampleSwaps_def exampleParams_def
  examplePayload_def transfer_def transferFrom_def approve_def balanceOf_def checked_add_def
  checked_sub_def WETH_def USDC_def UNISWAP_V3_ROUTER_def UNISWAP_V3_FACTORY_def
  NOT_ENTERED_def ENTERED_def abi_encode_def abi_decode_def executeWithAave_def
  executeWithAave_body_def flashLoanSimple_def executeOperation_def settleAave_def
  uniswapV3FlashCallback_def emit_def Let_def

text \<open>
  Claim C1, as the code has it. \<open>executeOperation\<close> checks its caller before anything
  else: a caller other than \<open>aavePool\<close> is rejected with \<open>InvalidCallbackCaller\<close> whatever
  the payload is, and a call by the pool with an initiator other than the executor is
  rejected with \<open>Unauthorized\<close>. \<open>uniswapV3FlashCallback\<close> has no configured lender: it
  decodes the payload first, so a payload that does not decode reverts in the decoder and an
  empty swap list reverts with the index panic; otherwise a caller other than the pool that
  the factory returns for the first swap of the payload is rejected with
  \<open>InvalidCallbackCaller\<close>.
\<close>

theorem callback_caller_checks:
  "(sender \<noteq> aavePool w \<longrightarrow>
      executeOperation e w sender asset amount premium initiator params = Inl InvalidCallbackCaller)
   \<and> (sender = aavePool w \<and> initiator \<noteq> this w \<longrightarrow>
      executeOperation e w sender asset amount premium initiator params = Inl Unauthorized)
   \<and> uniswapV3FlashCallback e w sender fee0 fee1 None = Inl DecodeRevert
   \<and> (CallbackData.swaps d = [] \<longrightarrow>
      uniswapV3FlashCallback e w sender fee0 fee1 (Some d) = Inl (Panic INDEX_PANIC))
   \<and> (\<forall>s0 rest. CallbackData.swaps d = s0 # rest \<and>
         sender \<noteq> getPool e UNISWAP_V3_FACTORY (SwapInstruction.tokenIn s0)
                    (SwapInstruction.tokenOut s0) (SwapInstruction.fee s0) \<longrightarrow>
      uniswapV3FlashCallback e w sender fee0 fee1 (Some d) = Inl InvalidCallbackCaller)"
  by (simp add: executeOperation_def uniswapV3FlashCallback_def abi_decode_def)

text \<open>The four cases on the example world.\<close>

theorem callback_caller_checks_witness:
  "(0xBAD \<noteq> aavePool (exampleWorld 1000) \<and>
      executeOperation exampleEnv (exampleWorld 1000) 0xBAD WETH 1000 1 0xE0
        (examplePayload 500 500 1000 19) = Inl InvalidCallbackCaller)
   \<and> (0xAA = aavePool (exampleWorld 1000) \<and> 0xBAD \<noteq> this (exampleWorld 1000) \<and>
      executeOperation exampleEnv (exampleWorld 1000) 0xAA WETH 1000 1 0xBAD
        (examplePayload 500 500 1000 19) = Inl Unauthorized)
   \<and> (CallbackData.swaps \<lparr>CallbackData.borrowToken = WETH, borrowAmount = 1000, minProfit = 0,
                            swaps = []\<rparr> = [] \<and>
      uniswapV3FlashCallback exampleEnv (exampleWorld 1000) 0xB0 1 0
        (Some \<lparr>CallbackData.borrowToken = WETH, borrowAmount = 1000, minProfit = 0,
               swaps = []\<rparr>) = Inl (Panic INDEX_PANIC))
   \<and> (0xBAD \<noteq> getPool exampleEnv UNISWAP_V3_FACTORY WETH USDC 500 \<and>
      uniswapV3FlashCallback exampleEnv (exampleWorld 1000) 0xBAD 1 0
        (examplePayload 500 500 1000 19) = Inl InvalidCallbackCaller)"
proof -
  have a: "0xBAD \<noteq> aavePool (exampleWorld 1000)"
    by (simp add: exampleWorld_def)
  have b: "0xAA = aavePool (exampleWorld 1000) \<and> 0xBAD \<noteq> this (exampleWorld 1000)"
    by (simp add: exampleWorld_def)
  have c: "0xBAD \<noteq> getPool exampleEnv UNISWAP_V3_FACTORY WETH USDC 500"
    by (simp add: exampleEnv_def)
  have s: "CallbackData.swaps \<lparr>CallbackData.borrowToken = WETH, borrowAmount = 1000,
             minProfit = 19, swaps = exampleSwaps 500 500 1000\<rparr>
           = \<lparr>SwapInstruction.router = UNISWAP_V3_ROUTER, tokenIn = WETH, tokenOut = USDC,
               fee = 500, amountIn = 1000, minAmountOut = 1\<rparr> #
             [\<lparr>SwapInstruction.router = UNISWAP_V3_ROUTER, tokenIn = USDC, tokenOut = WETH,
               fee = 500, amountIn = 0, minAmountOut = 1000\<rparr>]"
    by (simp add: exampleSwaps_def)
  note t1 = callback_caller_checks [of "0xBAD" "exampleWorld 1000" exampleEnv WETH 1000 1 "0xE0"
      "examplePayload 500 500 1000 19" 1 0
      "\<lparr>CallbackData.borrowToken = WETH, borrowAmount = 1000, minProfit = 19,
        swaps = exampleSwaps 500 500 1000\<rparr>"]
  note t2 = callback_caller_checks [of "0xAA" "exampleWorld 1000" exampleEnv WETH 1000 1 "0xBAD"
      "examplePayload 500 500 1000 19" 1 0
      "\<lparr>CallbackData.borrowToken = WETH, borrowAmount = 1000, minProfit = 0, swaps = []\<rparr>"]
  note t3 = callback_caller_checks [of "0xB0" "exampleWorld 1000" exampleEnv WETH 1000 1 "0xBAD"
      "examplePayload 500 500 1000 19" 1 0
      "\<lparr>CallbackData.borrowToken = WETH, borrowAmount = 1000, minProfit = 0, swaps = []\<rparr>"]
  from t1 a have 1: "executeOperation exampleEnv (exampleWorld 1000) 0xBAD WETH 1000 1 0xE0
        (examplePayload 500 500 1000 19) = Inl InvalidCallbackCaller" by blast
  from t2 b have 2: "executeOperation exampleEnv (exampleWorld 1000) 0xAA WETH 1000 1 0xBAD
        (examplePayload 500 500 1000 19) = Inl Unauthorized" by blast
  from t3 have 3: "uniswapV3FlashCallback exampleEnv (exampleWorld 1000) 0xB0 1 0
        (Some \<lparr>CallbackData.borrowToken = WETH, borrowAmount = 1000, minProfit = 0,
               swaps = []\<rparr>) = Inl (Panic INDEX_PANIC)" by simp
  from t1 s c have 4: "uniswapV3FlashCallback exampleEnv (exampleWorld 1000) 0xBAD 1 0
        (examplePayload 500 500 1000 19) = Inl InvalidCallbackCaller"
    by (simp add: examplePayload_def abi_encode_def)
  from a b c 1 2 3 4 show ?thesis by simp
qed

text \<open>
  The claim as stated fails: the pool \<open>0xB0\<close> of the factory is not the lending pool
  \<open>0xAA\<close>, yet its call of \<open>uniswapV3FlashCallback\<close> with a well-formed payload goes
  through; with a malformed payload the same call reverts in the decoder, not with an
  authorisation error; and \<open>executeOperation\<close> rejects the caller with
  \<open>InvalidCallbackCaller\<close>, which is not the \<open>Unauthorized\<close> error.
\<close>

theorem callback_unauthorized_counterexample:
  "0xB0 \<noteq> aavePool (exampleWorld 1000)
   \<and> \<not> isl (uniswapV3FlashCallback exampleEnv (exampleWorld 1000) 0xB0 1 0
              (examplePayload 500 500 1000 19))
   \<and> uniswapV3FlashCallback exampleEnv (exampleWorld 1000) 0xB0 1 0 None = Inl DecodeRevert
   \<and> executeOperation exampleEnv (exampleWorld 1000) 0xB0 WETH 1000 1 0xE0
        (examplePayload 500 500 1000 19) = Inl InvalidCallbackCaller"
  by (simp add: example_defs)

subsection \<open>The profit floor at settlement\<close>

text \<open>
  Claim C2 on the example world, through \<open>executeWithAave\<close> called by the owner with a
  loan of 1000 and a premium of 1, so that \<open>amountOwed\<close> is 1001. The claim asks for the
  insufficient-profit error whenever the balance is below \<open>amountOwed + minProfit\<close>.
  With a round trip that returns exactly 1000 and \<open>minProfit = 0\<close> the balance is
  \<open>amountOwed + minProfit - 1\<close>, and with a round trip that returns 990 and
  \<open>minProfit = 20\<close> it is below \<open>amountOwed\<close>: in both runs the argument
  \<open>balance - amountOwed\<close> of the error underflows and the call reverts with the arithmetic
  panic. Where the balance is at least \<open>amountOwed\<close> the check behaves as claimed: a balance
  of 1020 against \<open>minProfit = 20\<close> reverts with \<open>InsufficientProfit(19, 20)\<close>, and
  against \<open>minProfit = 19\<close> the call succeeds.
\<close>

theorem settlement_principal_loss_evaluation:
  "executeWithAave exampleEnv (exampleWorld 0) 0xA0 (exampleParams 100 100 1 0)
     = Inl (Panic ARITHMETIC_PANIC)
   \<and> executeWithAave exampleEnv (exampleWorld 0) 0xA0 (exampleParams 3000 3000 1 20)
     = Inl (Panic ARITHMETIC_PANIC)
   \<and> executeWithAave exampleEnv (exampleWorld 0) 0xA0 (exampleParams 500 500 1000 20)
     = Inl (InsufficientProfit 19 20)
   \<and> \<not> isl (executeWithAave exampleEnv (exampleWorld 0) 0xA0 (exampleParams 500 500 1000 19))"
  by (simp add: example_defs)

subsection \<open>Principal loss at settlement\<close>

lemma executeSwaps_error: "executeSwaps e w i sw = Inl err \<Longrightarrow> \<exists>k. err = SwapFailed k"
  by (induction sw arbitrary: w i) (auto simp: Let_def split: option.splits)

lemma settleAave_panic:
  "unat (balanceOf (ledger w) asset (this w)) < unat amount + unat premium \<Longrightarrow>
   settleAave w asset amount premium minP = Inl (Panic ARITHMETIC_PANIC)"
  by (auto simp: settleAave_def checked_add_def checked_sub_def Let_def word_le_nat_alt
        word_less_nat_alt unat_word_ariths split: sum.splits)

lemma settleAave_insufficient:
  "settleAave w asset amount premium minP = Inl (InsufficientProfit p r) \<Longrightarrow>
   unat amount + unat premium \<le> unat (balanceOf (ledger w) asset (this w)) \<and>
   unat (balanceOf (ledger w) asset (this w)) < unat amount + unat premium + unat minP \<and>
   unat p = unat (balanceOf (ledger w) asset (this w)) - (unat amount + unat premium) \<and>
   r = minP"
  apply (auto simp: settleAave_def checked_add_def checked_sub_def Let_def word_le_nat_alt
        word_less_nat_alt split: sum.splits if_splits)
  apply (simp_all add: unat_word_ariths unat_sub word_le_nat_alt)
  done

text \<open>
  Claim C10. When \<open>executeOperation\<close> reaches the settlement (the caller is the pool, the
  initiator is the executor, the payload decodes and every swap went through) and the
  balance of the asset is below \<open>amount + premium\<close>, the call reverts with the arithmetic
  panic \<open>Panic(0x11)\<close>. And whenever \<open>executeOperation\<close> reverts with
  \<open>InsufficientProfit(p, r)\<close>, the payload decoded, the swaps went through, and the balance
  after the swaps lies between \<open>amount + premium\<close> (included) and
  \<open>amount + premium + minProfit\<close> (excluded), with \<open>p\<close> the balance less
  \<open>amount + premium\<close> and \<open>r\<close> the \<open>minProfit\<close> of the payload.
\<close>

theorem executeOperation_principal_loss:
  "(sender = aavePool w \<and> initiator = this w \<and> params = Some data \<and>
    executeSwaps e w 0 (CallbackData.swaps data) = Inr w1 \<and>
    unat (balanceOf (ledger w1) asset (this w1)) < unat amount + unat premium \<longrightarrow>
      executeOperation e w sender asset amount premium initiator params
        = Inl (Panic ARITHMETIC_PANIC))
   \<and> (executeOperation e w sender asset amount premium initiator params
         = Inl (InsufficientProfit p r) \<longrightarrow>
       (\<exists>d w2. params = Some d \<and> executeSwaps e w 0 (CallbackData.swaps d) = Inr w2 \<and>
          r = CallbackData.minProfit d \<and>
          unat amount + unat premium \<le> unat (balanceOf (ledger w2) asset (this w2)) \<and>
          unat (balanceOf (ledger w2) asset (this w2))
            < unat amount + unat premium + unat (CallbackData.minProfit d) \<and>
          unat p = unat (balanceOf (ledger w2) asset (this w2)) - (unat amount + unat premium)))"
proof (intro conjI impI)
  assume h: "sender = aavePool w \<and> initiator = this w \<and> params = Some data \<and>
    executeSwaps e w 0 (CallbackData.swaps data) = Inr w1 \<and>
    unat (balanceOf (ledger w1) asset (this w1)) < unat amount + unat premium"
  then show "executeOperation e w sender asset amount premium initiator params
        = Inl (Panic ARITHMETIC_PANIC)"
    by (simp add: executeOperation_def abi_decode_def settleAave_panic)
next
  assume h: "executeOperation e w sender asset amount premium initiator params
         = Inl (InsufficientProfit p r)"
  then obtain d where d: "params = Some d"
    by (cases params) (auto simp: executeOperation_def abi_decode_def split: if_splits)
  from h d obtain w2 where w2: "executeSwaps e w 0 (CallbackData.swaps d) = Inr w2"
    by (cases "executeSwaps e w 0 (CallbackData.swaps d)")
       (auto simp: executeOperation_def abi_decode_def split: if_splits dest: executeSwaps_error)
  from h d w2 have "settleAave w2 asset amount premium (CallbackData.minProfit d)
      = Inl (InsufficientProfit p r)"
    by (auto simp: executeOperation_def abi_decode_def split: if_splits)
  from settleAave_insufficient [OF this] d w2
  show "\<exists>d w2. params = Some d \<and> executeSwaps e w 0 (CallbackData.swaps d) = Inr w2 \<and>
          r = CallbackData.minProfit d \<and>
          unat amount + unat premium \<le> unat (balanceOf (ledger w2) asset (this w2)) \<and>
          unat (balanceOf (ledger w2) asset (this w2))
            < unat amount + unat premium + unat (CallbackData.minProfit d) \<and>
          unat p = unat (balanceOf (ledger w2) asset (this w2)) - (unat amount + unat premium)"
    by blast
qed

text \<open>
  Both parts on the example world: a round trip that leaves 990 against 1001 owed panics,
  and one that leaves 1020 against a floor of 20 reports \<open>InsufficientProfit(19, 20)\<close>.
\<close>

theorem executeOperation_principal_loss_witness:
  "(0xAA = aavePool (exampleWorld 1000) \<and> 0xE0 = this (exampleWorld 1000) \<and>
    \<not> isl (executeSwaps exampleEnv (exampleWorld 1000) 0 (exampleSwaps 3000 3000 1)) \<and>
    unat (balanceOf (ledger (projr (executeSwaps exampleEnv (exampleWorld 1000) 0
             (exampleSwaps 3000 3000 1)))) WETH 0xE0) < unat (1000 :: uint256) + unat (1 :: uint256) \<and>
    executeOperation exampleEnv (exampleWorld 1000) 0xAA WETH 1000 1 0xE0
      (examplePayload 3000 3000 1 20) = Inl (Panic ARITHMETIC_PANIC))
   \<and> (executeOperation exampleEnv (exampleWorld 1000) 0xAA WETH 1000 1 0xE0
         (examplePayload 500 500 1000 20) = Inl (InsufficientProfit 19 20) \<and>
       (\<exists>d w2. examplePayload 500 500 1000 20 = Some d \<and>
          executeSwaps exampleEnv (exampleWorld 1000) 0 (CallbackData.swaps d) = Inr w2 \<and>
          (20 :: uint256) = CallbackData.minProfit d \<and>
          unat (1000 :: uint256) + unat (1 :: uint256)
            \<le> unat (balanceOf (ledger w2) WETH (this w2)) \<and>
          unat (balanceOf (ledger w2) WETH (this w2))
            < unat (1000 :: uint256) + unat (1 :: uint256) + unat (CallbackData.minProfit d) \<and>
          unat (19 :: uint256)
            = unat (balanceOf (ledger w2) WETH (this w2))
                - (unat (1000 :: uint256) + unat (1 :: uint256))))"
proof -
  let ?sw = "executeSwaps exampleEnv (exampleWorld 1000) 0 (exampleSwaps 3000 3000 1)"
  let ?d = "\<lparr>CallbackData.borrowToken = WETH, borrowAmount = 1000, minProfit = 20,
             swaps = exampleSwaps 3000 3000 1\<rparr>"
  have a: "0xAA = aavePool (exampleWorld 1000) \<and> 0xE0 = this (exampleWorld 1000)"
    by (simp add: exampleWorld_def)
  have b: "\<not> isl ?sw"
    by (simp add: example_defs)
  then have b': "?sw = Inr (projr ?sw)"
    by (cases ?sw) simp_all
  have t: "this (projr ?sw) = 0xE0"
    by (simp add: example_defs)
  have c: "unat (balanceOf (ledger (projr ?sw)) WETH 0xE0)
             < unat (1000 :: uint256) + unat (1 :: uint256)"
    by (simp add: example_defs)
  have p: "examplePayload 3000 3000 1 20 = Some ?d"
    by (simp add: examplePayload_def abi_encode_def)
  have 1: "executeOperation exampleEnv (exampleWorld 1000) 0xAA WETH 1000 1 0xE0
      (examplePayload 3000 3000 1 20) = Inl (Panic ARITHMETIC_PANIC)"
    using executeOperation_principal_loss [of "0xAA" "exampleWorld 1000" "0xE0"
        "examplePayload 3000 3000 1 20" ?d exampleEnv "projr ?sw" WETH 1000 1] a b' c p t
    by simp
  have h: "executeOperation exampleEnv (exampleWorld 1000) 0xAA WETH 1000 1 0xE0
         (examplePayload 500 500 1000 20) = Inl (InsufficientProfit 19 20)"
    by (simp add: example_defs)
  from executeOperation_principal_loss [of "0xAA" "exampleWorld 1000" "0xE0"
        "examplePayload 500 500 1000 20" ?d exampleEnv "projr ?sw" WETH 1000 1 19 20] h
  have 2: "\<exists>d w2. examplePayload 500 500 1000 20 = Some d \<and>
          executeSwaps exampleEnv (exampleWorld 1000) 0 (CallbackData.swaps d) = Inr w2 \<and>
          (20 :: uint256) = CallbackData.minProfit d \<and>
          unat (1000 :: uint256) + unat (1 :: uint256)
            \<le> unat (balanceOf (ledger w2) WETH (this w2)) \<and>
          unat (balanceOf (ledger w2) WETH (this w2))
            < unat (1000 :: uint256) + unat (1 :: uint256) + unat (CallbackData.minProfit d) \<and>
          unat (19 :: uint256)
            = unat (balanceOf (ledger w2) WETH (this w2))
                - (unat (1000 :: uint256) + unat (1 :: uint256))"
    by blast
  from a b c 1 h 2 show ?thesis by blast
qed

subsection \<open>The reentrancy lock\<close>















subsection \<open>The stored \<open>minProfitBps\<close>\<close>








section \<open>Properties of the bot\<close>

lemmas js_defs = js_sub_def js_gt_def js_le_def js_ge_def Math_max_def parseFloat_def

subsection \<open>The detector's pairwise comparison\<close>


















subsection \<open>Sizing\<close>

lemma div10_le: "(0::int) \<le> m \<Longrightarrow> m div 10 \<le> m"
  by presburger

lemma div100_nonneg: "(0::int) \<le> a \<Longrightarrow> 0 \<le> a div 100"
  by presburger

text \<open>
  Claim C5. For liquidity values and a flashloan percentage that are not negative (the
  liquidity is a \<open>uint128\<close> reading, the percentage a configured percentage, 10 when not
  set), \<open>calculateOptimalAmount\<close> returns the smaller liquidity as the binding one,
  \<open>maxFlashloan = bindingLiquidity * maxFlashloanPercent / 100\<close> and
  \<open>optimalAmount = maxFlashloan / 10\<close> in integer division, and
  \<open>optimalAmount \<le> maxFlashloan \<le> bindingLiquidity * maxFlashloanPercent / 100\<close>, the last
  bound read over the reals.
\<close>

theorem calculateOptimalAmount_bounds:
  assumes "0 \<le> buyLiquidity opp" and "0 \<le> sellLiquidity opp" and "0 \<le> maxFlashloanPercent d"
  shows "constrainingLiquidity (calculateOptimalAmount d opp)
           = min (buyLiquidity opp) (sellLiquidity opp)
         \<and> maxFlashloan (calculateOptimalAmount d opp)
           = min (buyLiquidity opp) (sellLiquidity opp) * maxFlashloanPercent d div 100
         \<and> optimalAmount (calculateOptimalAmount d opp)
           = maxFlashloan (calculateOptimalAmount d opp) div 10
         \<and> optimalAmount (calculateOptimalAmount d opp)
           \<le> maxFlashloan (calculateOptimalAmount d opp)
         \<and> real_of_int (maxFlashloan (calculateOptimalAmount d opp))
           \<le> real_of_int (min (buyLiquidity opp) (sellLiquidity opp) * maxFlashloanPercent d) / 100"
proof -
  let ?bl = "min (buyLiquidity opp) (sellLiquidity opp)"
  let ?m = "?bl * maxFlashloanPercent d div 100"
  have bl: "0 \<le> ?bl" using assms by simp
  then have prod: "0 \<le> ?bl * maxFlashloanPercent d" using assms by simp
  then have m: "0 \<le> ?m" by (rule div100_nonneg)
  have trunc: "bigint_div a b = a div b" if "0 \<le> a" "0 < b" for a b :: int
    using that by (cases "a = 0") (simp_all add: bigint_div_def)
  have co: "calculateOptimalAmount d opp =
      \<lparr>maxFlashloan = bigint_div (?bl * maxFlashloanPercent d) 100,
       optimalAmount = bigint_div (bigint_div (?bl * maxFlashloanPercent d) 100) 10,
       constrainingLiquidity = ?bl,
       limitingPool = (if buyLiquidity opp < sellLiquidity opp then ''buy'' else ''sell'')\<rparr>"
    by (simp add: calculateOptimalAmount_def Let_def min_def)
  have t1: "bigint_div (?bl * maxFlashloanPercent d) 100 = ?m"
    by (rule trunc [OF prod]) simp
  have t2: "bigint_div ?m 10 = ?m div 10"
    by (rule trunc [OF m]) simp
  have cl: "constrainingLiquidity (calculateOptimalAmount d opp) = ?bl"
    by (simp only: co SizingResult.simps)
  have mf: "maxFlashloan (calculateOptimalAmount d opp) = ?m"
    by (simp only: co SizingResult.simps t1)
  have oa: "optimalAmount (calculateOptimalAmount d opp) = ?m div 10"
    by (simp only: co SizingResult.simps t1 t2)
  have le: "?m div 10 \<le> ?m" using m by (rule div10_le)
  have "real_of_int ?m \<le> real_of_int (?bl * maxFlashloanPercent d) / 100"
    using real_of_int_div4 [of "?bl * maxFlashloanPercent d" 100] by simp
  with cl mf oa le show ?thesis by simp
qed

theorem calculateOptimalAmount_bounds_witness:
  "0 \<le> buyLiquidity exampleOpportunity \<and> 0 \<le> sellLiquidity exampleOpportunity \<and>
   0 \<le> maxFlashloanPercent defaultDetector \<and>
   constrainingLiquidity (calculateOptimalAmount defaultDetector exampleOpportunity)
     = 1000000000000000000000000 \<and>
   maxFlashloan (calculateOptimalAmount defaultDetector exampleOpportunity)
     = 100000000000000000000000 \<and>
   optimalAmount (calculateOptimalAmount defaultDetector exampleOpportunity)
     = 10000000000000000000000 \<and>
   optimalAmount (calculateOptimalAmount defaultDetector exampleOpportunity)
     \<le> maxFlashloan (calculateOptimalAmount defaultDetector exampleOpportunity) \<and>
   real_of_int (maxFlashloan (calculateOptimalAmount defaultDetector exampleOpportunity))
     \<le> real_of_int (1000000000000000000000000 * 10) / 100"
proof -
  have h: "0 \<le> buyLiquidity exampleOpportunity" "0 \<le> sellLiquidity exampleOpportunity"
    "0 \<le> maxFlashloanPercent defaultDetector"
    by (simp_all add: exampleOpportunity_def opportunityFrom_def exampleQuote_def
          defaultDetector_def SAFETY_MAX_FLASHLOAN_PERCENT_def)
  have v: "min (buyLiquidity exampleOpportunity) (sellLiquidity exampleOpportunity)
             = 1000000000000000000000000"
    "maxFlashloanPercent defaultDetector = 10"
    by (simp_all add: exampleOpportunity_def opportunityFrom_def exampleQuote_def
          defaultDetector_def SAFETY_MAX_FLASHLOAN_PERCENT_def)
  from calculateOptimalAmount_bounds [OF h] h show ?thesis
    by (simp add: v)
qed

subsection \<open>The viability verdict\<close>

text \<open>
  Claim C3. In every \<open>ProfitAnalysis\<close> that \<open>calculateProfit\<close> returns, \<open>isViable\<close> is
  true exactly when \<open>slippageAcceptable\<close>, \<open>profitAcceptable\<close> and \<open>bpsAcceptable\<close> are
  all true; \<open>slippageAcceptable\<close> in turn is the conjunction of the verdicts of
  \<open>modelSlippage\<close> on the buy side and on the sell side.
\<close>

theorem isViable_iff_flags:
  "isViable (calculateProfit d opp amt n)
     = (slippageAcceptable (calculateProfit d opp amt n) \<and>
        profitAcceptable (calculateProfit d opp amt n) \<and>
        bpsAcceptable (calculateProfit d opp amt n))
   \<and> slippageAcceptable (calculateProfit d opp amt n)
     = (acceptable (modelSlippage d amt (buyLiquidity opp) (buyFee opp)) \<and>
        acceptable (modelSlippage d amt (sellLiquidity opp) (sellFee opp)))"
  by (simp add: calculateProfit_def Let_def)

subsection \<open>The transaction builder\<close>

text \<open>The example opportunity through the detector, step by step.\<close>

lemma example_opportunities:
  "findArbitrageOpportunities
     [exampleQuote ''Uniswap'' 3150 3000 1000000000000000000000000, exampleQuote ''SushiSwap'' 2850 3000 1000000000000000000000000]
   = [opportunityFrom (exampleQuote ''SushiSwap'' 2850 3000 1000000000000000000000000)
        (exampleQuote ''Uniswap'' 3150 3000 1000000000000000000000000) (Fin 10) (Fin (3 / 5)) (Fin (47 / 5))]"
  by (simp add: findArbitrageOpportunities_def sortByProfit_def comparePair_def exampleQuote_def
        js_defs Let_def)

lemma example_sizing:
  "calculateOptimalAmount exampleDetector exampleOpportunity
     = \<lparr>maxFlashloan = 100000000000000000000000, optimalAmount = 10000000000000000000000, constrainingLiquidity = 1000000000000000000000000,
        limitingPool = ''sell''\<rparr>"
  by (simp add: calculateOptimalAmount_def exampleOpportunity_def opportunityFrom_def
        exampleQuote_def exampleDetector_def defaultDetector_def bigint_div_def
        SAFETY_MAX_FLASHLOAN_PERCENT_def Let_def)

lemma example_profit:
  "calculateProfit exampleDetector exampleOpportunity 10000000000000000000000 18
     = \<lparr>ProfitAnalysis.borrowAmount = 10000000000000000000000,
        borrowAmountFormatted = Fin 10000,
        grossProfitPercent = Fin (47 / 5), grossProfitAmount = Fin 940,
        flashFeePercent = Fin (1 / 20), flashFeeAmount = Fin 5,
        totalSlippagePercent = Fin 2, slippageCost = Fin 200,
        gasCostUsd = Fin (21 / 20000), netProfitBeforeGas = Fin 735,
        netProfitAfterGas = Fin (14699979 / 20000), profitBps = Fin 735,
        slippageAcceptable = True, profitAcceptable = True,
        bpsAcceptable = True, isViable = True\<rparr>"
  by (simp add: calculateProfit_def modelSlippage_def estimateGasCost_def exampleOpportunity_def
        opportunityFrom_def exampleQuote_def exampleDetector_def defaultDetector_def bigint_div_def
        AAVE_FLASH_FEE_BPS_def SAFETY_MAX_SLIPPAGE_BPS_def SAFETY_MIN_PROFIT_USD_def
        SAFETY_MIN_PROFIT_BPS_def js_defs Let_def)

lemma example_evaluate:
  "evaluate exampleDetector exampleOpportunity
     = \<lparr>opportunity = exampleOpportunity,
        sizing = calculateOptimalAmount exampleDetector exampleOpportunity,
        profitAnalysis = calculateProfit exampleDetector exampleOpportunity 10000000000000000000000 18,
        shouldExecute = True\<rparr>"
proof -
  have t0: "Opportunity.token0 exampleOpportunity = WETH"
    by (simp add: exampleOpportunity_def opportunityFrom_def exampleQuote_def)
  have dec: "DECIMALS WETH = Some 18"
    by (simp add: DECIMALS_def)
  show ?thesis
    unfolding evaluate_def Let_def t0 dec
    by (simp add: example_sizing example_profit)
qed

text \<open>
  Claim C6. \<open>buildArbitrageParams\<close> always builds two legs: the first sells the whole
  borrowed amount of \<open>token0\<close>, the borrowed token, for \<open>token1\<close> on the fee tier of the
  buy side; the second sells the full balance (input amount zero) of \<open>token1\<close> back to
  \<open>token0\<close> on the fee tier of the sell side, with a minimum output equal to the borrowed
  amount. Both legs name the one configured router, whatever the venues of the two sides
  are. For the example opportunity, which the detector finds and accepts and whose buy side
  is the SushiSwap pool, the first leg therefore goes to the Uniswap router and not to the
  venue of the buy side.
\<close>

theorem buildArbitrageParams_single_router:
  "Route.swaps (buildArbitrageParams enc opp sz pa)
     = [\<lparr>Swap.router = UNISWAP_V3_ROUTER, tokenIn = Opportunity.token0 opp,
         tokenOut = Opportunity.token1 opp, fee = buyFee opp,
         amountIn = optimalAmount sz, minAmountOut = 1\<rparr>,
        \<lparr>Swap.router = UNISWAP_V3_ROUTER, tokenIn = Opportunity.token1 opp,
         tokenOut = Opportunity.token0 opp, fee = sellFee opp,
         amountIn = 0, minAmountOut = optimalAmount sz\<rparr>]
   \<and> Route.borrowToken (buildArbitrageParams enc opp sz pa) = Opportunity.token0 opp
   \<and> Route.borrowAmount (buildArbitrageParams enc opp sz pa) = optimalAmount sz
   \<and> findArbitrageOpportunities
         [exampleQuote ''Uniswap'' 3150 3000 1000000000000000000000000,
          exampleQuote ''SushiSwap'' 2850 3000 1000000000000000000000000] = [exampleOpportunity]
   \<and> shouldExecute (evaluate exampleDetector exampleOpportunity)
   \<and> buyDex exampleOpportunity = ''SushiSwap''
   \<and> sellDex exampleOpportunity = ''Uniswap''
   \<and> map Swap.router
         (Route.swaps (buildArbitrageParams exampleEncoder exampleOpportunity
            (sizing (evaluate exampleDetector exampleOpportunity))
            (profitAnalysis (evaluate exampleDetector exampleOpportunity))))
       = [UNISWAP_V3_ROUTER, UNISWAP_V3_ROUTER]
   \<and> venueOfRouter UNISWAP_V3_ROUTER = Some ''Uniswap''
   \<and> venueOfRouter UNISWAP_V3_ROUTER \<noteq> Some (buyDex exampleOpportunity)"
proof -
  have g: "Route.swaps (buildArbitrageParams enc opp sz pa)
     = [\<lparr>Swap.router = UNISWAP_V3_ROUTER, tokenIn = Opportunity.token0 opp,
         tokenOut = Opportunity.token1 opp, fee = buyFee opp,
         amountIn = optimalAmount sz, minAmountOut = 1\<rparr>,
        \<lparr>Swap.router = UNISWAP_V3_ROUTER, tokenIn = Opportunity.token1 opp,
         tokenOut = Opportunity.token0 opp, fee = sellFee opp,
         amountIn = 0, minAmountOut = optimalAmount sz\<rparr>]
   \<and> Route.borrowToken (buildArbitrageParams enc opp sz pa) = Opportunity.token0 opp
   \<and> Route.borrowAmount (buildArbitrageParams enc opp sz pa) = optimalAmount sz"
    for enc opp sz pa
    by (simp add: buildArbitrageParams_def createSwapInstruction_def Let_def)
  have dex: "buyDex exampleOpportunity = ''SushiSwap''" "sellDex exampleOpportunity = ''Uniswap''"
    by (simp_all add: exampleOpportunity_def opportunityFrom_def exampleQuote_def)
  have opps: "findArbitrageOpportunities
         [exampleQuote ''Uniswap'' 3150 3000 1000000000000000000000000,
          exampleQuote ''SushiSwap'' 2850 3000 1000000000000000000000000] = [exampleOpportunity]"
    by (simp add: example_opportunities exampleOpportunity_def)
  have ev: "shouldExecute (evaluate exampleDetector exampleOpportunity)"
    by (simp add: example_evaluate)
  have v: "venueOfRouter UNISWAP_V3_ROUTER = Some ''Uniswap''"
    by (simp add: venueOfRouter_def)
  have r: "map Swap.router
         (Route.swaps (buildArbitrageParams exampleEncoder exampleOpportunity
            (sizing (evaluate exampleDetector exampleOpportunity))
            (profitAnalysis (evaluate exampleDetector exampleOpportunity))))
       = [UNISWAP_V3_ROUTER, UNISWAP_V3_ROUTER]"
    by (simp add: g)
  have nv: "venueOfRouter UNISWAP_V3_ROUTER \<noteq> Some (buyDex exampleOpportunity)"
    by (simp add: v dex)
  from g [of enc opp sz pa] opps ev dex r v nv show ?thesis
    by blast
qed

text \<open>
  Claim C7. The \<open>minProfit\<close> of the builder is \<open>max(0, floor(estimate * 0.5 * 10^6))\<close>
  for every input: half of the estimated net profit after gas, scaled by the constant
  \<open>10^6\<close> whatever the borrowed token is. On the example opportunity the borrowed token is
  WETH, which has 18 decimals, and the estimate is 734.99895: the builder submits 367499475,
  which is not half of the estimate in the smallest unit of WETH, \<open>367.499475 * 10^18\<close>.
\<close>

theorem buildArbitrageParams_minProfit_unit:
  "Route.minProfit (buildArbitrageParams enc opp sz pa)
     = Math_max (Fin 0)
         (Math_floor (js_mul (js_mul (netProfitAfterGas pa) (Fin (1 / 2))) (Fin 1000000)))
   \<and> findArbitrageOpportunities
     [exampleQuote ''Uniswap'' 3150 3000 1000000000000000000000000,
      exampleQuote ''SushiSwap'' 2850 3000 1000000000000000000000000] = [exampleOpportunity]
   \<and> shouldExecute (evaluate exampleDetector exampleOpportunity)
   \<and> netProfitAfterGas (profitAnalysis (evaluate exampleDetector exampleOpportunity))
       = Fin (73499895 / 100000)
   \<and> Route.borrowToken (buildArbitrageParams exampleEncoder exampleOpportunity
         (sizing (evaluate exampleDetector exampleOpportunity))
         (profitAnalysis (evaluate exampleDetector exampleOpportunity))) = WETH
   \<and> DECIMALS WETH = Some 18
   \<and> Route.minProfit (buildArbitrageParams exampleEncoder exampleOpportunity
         (sizing (evaluate exampleDetector exampleOpportunity))
         (profitAnalysis (evaluate exampleDetector exampleOpportunity))) = Fin 367499475
   \<and> Fin 367499475 \<noteq> Fin (73499895 / 100000 * (1 / 2) * 10 ^ 18)"
proof -
  have opps: "findArbitrageOpportunities
         [exampleQuote ''Uniswap'' 3150 3000 1000000000000000000000000,
          exampleQuote ''SushiSwap'' 2850 3000 1000000000000000000000000] = [exampleOpportunity]"
    by (simp add: example_opportunities exampleOpportunity_def)
  have t0: "Opportunity.token0 exampleOpportunity = WETH"
    by (simp add: exampleOpportunity_def opportunityFrom_def exampleQuote_def)
  have net: "netProfitAfterGas (profitAnalysis (evaluate exampleDetector exampleOpportunity))
       = Fin (73499895 / 100000)"
    by (simp add: example_evaluate example_profit)
  have bt: "Route.borrowToken (buildArbitrageParams exampleEncoder exampleOpportunity
         (sizing (evaluate exampleDetector exampleOpportunity))
         (profitAnalysis (evaluate exampleDetector exampleOpportunity))) = WETH"
    by (simp add: buildArbitrageParams_def Let_def t0)
  have mp: "Route.minProfit (buildArbitrageParams exampleEncoder exampleOpportunity
         (sizing (evaluate exampleDetector exampleOpportunity))
         (profitAnalysis (evaluate exampleDetector exampleOpportunity))) = Fin 367499475"
    by (simp add: buildArbitrageParams_def Let_def net js_defs)
  have ev: "shouldExecute (evaluate exampleDetector exampleOpportunity)"
    by (simp add: example_evaluate)
  have dec: "DECIMALS WETH = Some 18"
    by (simp add: DECIMALS_def)
  have ne: "Fin 367499475 \<noteq> Fin (73499895 / 100000 * (1 / 2) * 10 ^ 18)"
    by simp
  have gen: "Route.minProfit (buildArbitrageParams enc opp sz pa)
     = Math_max (Fin 0)
         (Math_floor (js_mul (js_mul (netProfitAfterGas pa) (Fin (1 / 2))) (Fin 1000000)))"
    by (simp add: buildArbitrageParams_def parseFloat_def Let_def)
  from gen opps ev net bt dec mp ne show ?thesis
    by blast
qed

end
